theory Spec2Isabelle
  imports Complex_Main
begin

section \<open>JavaScript values of \<^verbatim>\<open>openRouterService.js\<close>\<close>

text \<open>
  A JavaScript string is a sequence of UTF-16 code units; a code unit is a natural number.
  \<open>js\<close> embeds an ASCII literal of the source.
\<close>

type_synonym jsstring = "nat list"

definition js :: "string \<Rightarrow> jsstring" where
  "js s = map of_char s"

text \<open>
  The value of the \<^verbatim>\<open>status\<close> property of a thrown object: absent (reads as
  \<^verbatim>\<open>undefined\<close>), a number, or a string. Only a number can be strictly equal
  (\<^verbatim>\<open>===\<close>) to 503, 429 or 500.
\<close>

datatype js_prop = Missing | Num int | Str jsstring

text \<open>
  The values this module throws or rethrows. \<open>JsUndefined\<close> and \<open>JsNull\<close> are the
  primitive values (a promise may reject with them, and \<^verbatim>\<open>lastError\<close> starts as
  \<^verbatim>\<open>undefined\<close>); \<open>JsError m s\<close> is an error object with message \<open>m\<close> whose
  \<^verbatim>\<open>status\<close> property is \<open>s\<close>; \<open>JsTypeError\<close> is what the engine raises when a
  property of \<^verbatim>\<open>undefined\<close> or \<^verbatim>\<open>null\<close> is read, and \<open>JsSyntaxError\<close> what
  \<^verbatim>\<open>JSON.parse\<close> raises on invalid text (their messages depend on the engine and are
  not modelled; neither has a \<^verbatim>\<open>status\<close> property).
\<close>

datatype js_exn =
    JsUndefined
  | JsNull
  | JsError jsstring js_prop
  | JsTypeError
  | JsSyntaxError

text \<open>\<^verbatim>\<open>error.status\<close>: reading the property fails on \<^verbatim>\<open>undefined\<close> and \<^verbatim>\<open>null\<close>.\<close>

fun read_status :: "js_exn \<Rightarrow> js_exn + js_prop" where
  "read_status JsUndefined = Inl JsTypeError"
| "read_status JsNull = Inl JsTypeError"
| "read_status (JsError m s) = Inr s"
| "read_status JsTypeError = Inr Missing"
| "read_status JsSyntaxError = Inr Missing"

text \<open>
  \<^verbatim>\<open>const isRetryable = error.status === 503 || error.status === 429 || error.status === 500;\<close>
\<close>

definition isRetryable :: "js_exn \<Rightarrow> js_exn + bool" where
  "isRetryable error =
     (case read_status error of
        Inl te \<Rightarrow> Inl te
      | Inr st \<Rightarrow> Inr (st = Num 503 \<or> st = Num 429 \<or> st = Num 500))"

section \<open>The backoff executor\<close>

text \<open>
  The wrapped operation \<^verbatim>\<open>apiCall\<close> is a zero-argument asynchronous function with
  effects of its own: a transformer of a state \<open>'s\<close> that either throws (\<open>Inl\<close>) or
  returns (\<open>Inr\<close>). The executor's own observable effects are kept in a trace: one
  \<open>Invoke\<close> for each \<^verbatim>\<open>await apiCall()\<close> and one \<open>Sleep d\<close> for each
  \<^verbatim>\<open>await new Promise(resolve => setTimeout(resolve, d))\<close>.
\<close>

datatype event = Invoke | Sleep int

type_synonym ('s, 'a) api_call = "'s \<Rightarrow> (js_exn + 'a) \<times> 's"

record 's exec_state =
  op_state :: 's
  trace :: "event list"

text \<open>
  \<^verbatim>\<open>Math.pow(2, attempt - 1) * 1000\<close>; \<^verbatim>\<open>attempt\<close> starts at 1 and only grows, so the
  exponent is never negative.
\<close>

definition delayMs :: "int \<Rightarrow> int" where
  "delayMs attempt = 2 ^ nat (attempt - 1) * 1000"

text \<open>
  The \<^verbatim>\<open>for (let attempt = 1; attempt <= maxRetries; attempt++)\<close> loop with its
  \<^verbatim>\<open>try/catch\<close> body, and the \<^verbatim>\<open>throw lastError\<close> after it. The loop variables
  \<^verbatim>\<open>attempt\<close> and \<^verbatim>\<open>lastError\<close> are arguments. \<^verbatim>\<open>maxRetries\<close> is an
  integer of any sign (a count; numbers that are not integers are not modelled).
\<close>

function retry_loop ::
  "('s, 'a) api_call \<Rightarrow> int \<Rightarrow> int \<Rightarrow> js_exn \<Rightarrow> 's exec_state \<Rightarrow> (js_exn + 'a) \<times> 's exec_state"
where
  "retry_loop apiCall maxRetries attempt lastError w =
     (if attempt \<le> maxRetries then
        (case apiCall (op_state w) of
           (Inr result, s') \<Rightarrow>
             (Inr result, \<lparr>op_state = s', trace = trace w @ [Invoke]\<rparr>)
         | (Inl error, s') \<Rightarrow>
             (let w' = \<lparr>op_state = s', trace = trace w @ [Invoke]\<rparr>;
                  lastError' = error
              in case isRetryable error of
                   Inl te \<Rightarrow> (Inl te, w')
                 | Inr False \<Rightarrow> (Inl error, w')
                 | Inr True \<Rightarrow>
                     if attempt = maxRetries then (Inl lastError', w')
                     else retry_loop apiCall maxRetries (attempt + 1) lastError'
                            (w'\<lparr>trace := trace w' @ [Sleep (delayMs attempt)]\<rparr>)))
      else (Inl lastError, w))"
  by pat_completeness auto
termination
  by (relation "measure (\<lambda>(apiCall, maxRetries, attempt, lastError, w). nat (maxRetries + 1 - attempt))")
     auto

text \<open>
  \<^verbatim>\<open>const retryWithExponentialBackoff = async (apiCall, maxRetries = 3) => ...\<close>: an omitted
  second argument (\<open>None\<close>) takes the default 3. The trace starts empty.
\<close>

definition maxRetries_of :: "int option \<Rightarrow> int" where
  "maxRetries_of maxRetries_arg = (case maxRetries_arg of None \<Rightarrow> 3 | Some n \<Rightarrow> n)"

definition retryWithExponentialBackoff ::
  "('s, 'a) api_call \<Rightarrow> int option \<Rightarrow> 's \<Rightarrow> (js_exn + 'a) \<times> 's exec_state"
where
  "retryWithExponentialBackoff apiCall maxRetries_arg s =
     retry_loop apiCall (maxRetries_of maxRetries_arg) 1 JsUndefined
       \<lparr>op_state = s, trace = []\<rparr>"

subsection \<open>Vocabulary for stating properties of a run\<close>

text \<open>
  \<open>state_before apiCall s k\<close> is the operation's state when its invocation number
  \<open>k + 1\<close> starts, provided the operation is the only thing that changes it, and
  \<open>outcome_of apiCall s k\<close> is what that invocation throws or returns.
\<close>

definition state_before :: "('s, 'a) api_call \<Rightarrow> 's \<Rightarrow> nat \<Rightarrow> 's" where
  "state_before apiCall s k = ((\<lambda>t. snd (apiCall t)) ^^ k) s"

definition outcome_of :: "('s, 'a) api_call \<Rightarrow> 's \<Rightarrow> nat \<Rightarrow> js_exn + 'a" where
  "outcome_of apiCall s k = fst (apiCall (state_before apiCall s k))"

definition fails_retryably :: "js_exn + 'a \<Rightarrow> bool" where
  "fails_retryably r = (case r of Inl e \<Rightarrow> isRetryable e = Inr True | Inr v \<Rightarrow> False)"

definition invocations :: "event list \<Rightarrow> nat" where
  "invocations tr = length (filter (\<lambda>e. e = Invoke) tr)"

fun delays :: "event list \<Rightarrow> int list" where
  "delays [] = []"
| "delays (Invoke # tr) = delays tr"
| "delays (Sleep d # tr) = d # delays tr"

text \<open>
  The trace of \<open>k\<close> attempts that start with attempt number \<open>i + 1\<close>, all but the last
  followed by their delay.
\<close>

fun schedule :: "nat \<Rightarrow> nat \<Rightarrow> event list" where
  "schedule i 0 = []"
| "schedule i (Suc 0) = [Invoke]"
| "schedule i (Suc (Suc k)) = Invoke # Sleep (2 ^ i * 1000) # schedule (Suc i) (Suc k)"

text \<open>
  What the caller of the executor sees when the loop stops at an invocation with outcome
  \<open>r\<close>: the returned value, or the thrown one (the \<open>TypeError\<close> of reading
  \<^verbatim>\<open>error.status\<close> when the thrown value is \<^verbatim>\<open>undefined\<close> or \<^verbatim>\<open>null\<close>).
\<close>

definition settle :: "js_exn + 'a \<Rightarrow> js_exn + 'a" where
  "settle r = (case r of Inr v \<Rightarrow> Inr v
     | Inl e \<Rightarrow> (case isRetryable e of Inl te \<Rightarrow> Inl te | Inr b \<Rightarrow> Inl e))"

text \<open>
  A mocked operation for concrete runs: its state is the list of outcomes still to be
  replayed, one per invocation.
\<close>

definition scripted :: "((js_exn + 'a) list, 'a) api_call" where
  "scripted rs = (case rs of [] \<Rightarrow> (Inl (JsError (js ''mock exhausted'') Missing), [])
                   | r # rest \<Rightarrow> (r, rest))"

section \<open>JSON text, as the runtime's \<^verbatim>\<open>JSON.parse\<close> and \<^verbatim>\<open>JSON.stringify\<close> treat it\<close>

text \<open>
  The value \<^verbatim>\<open>JSON.parse\<close> returns. A number is kept as the exact rational its literal
  denotes (rounding to a double and the sign of zero are not modelled). An object is the
  list of its members, one per key, in the order the keys first appear in the text (the
  runtime enumerates keys that are array indices first, in ascending order; the order of
  enumeration is not modelled, and nothing in this module enumerates keys).
\<close>

datatype json =
    JNull
  | JBool bool
  | JNumber rat
  | JString jsstring
  | JArray "json list"
  | JObject "(jsstring \<times> json) list"

datatype token =
    TLBrace | TRBrace | TLBracket | TRBracket | TColon | TComma
  | TString jsstring | TNumber rat | TTrue | TFalse | TNull

definition is_ws :: "nat \<Rightarrow> bool" where
  "is_ws c = (c = 0x20 \<or> c = 0x09 \<or> c = 0x0A \<or> c = 0x0D)"

definition is_digit :: "nat \<Rightarrow> bool" where
  "is_digit c = (0x30 \<le> c \<and> c \<le> 0x39)"

definition hex_val :: "nat \<Rightarrow> nat option" where
  "hex_val c =
     (if 0x30 \<le> c \<and> c \<le> 0x39 then Some (c - 0x30)
      else if 0x41 \<le> c \<and> c \<le> 0x46 then Some (c - 0x41 + 10)
      else if 0x61 \<le> c \<and> c \<le> 0x66 then Some (c - 0x61 + 10)
      else None)"

text \<open>The character after a backslash, other than \<^verbatim>\<open>u\<close>, and the code unit it denotes.\<close>

definition escape_unit :: "nat \<Rightarrow> nat option" where
  "escape_unit c =
     (if c = 0x22 then Some 0x22
      else if c = 0x5C then Some 0x5C
      else if c = 0x2F then Some 0x2F
      else if c = 0x62 then Some 0x08
      else if c = 0x66 then Some 0x0C
      else if c = 0x6E then Some 0x0A
      else if c = 0x72 then Some 0x0D
      else if c = 0x74 then Some 0x09
      else None)"

text \<open>
  The rest of a string literal after its opening quote: the code units read so far are in
  \<open>acc\<close>, reversed; the result is the string and the text after the closing quote.
\<close>

fun lex_string :: "jsstring \<Rightarrow> jsstring \<Rightarrow> (jsstring \<times> jsstring) option" where
  "lex_string [] acc = None"
| "lex_string (c # cs) acc =
     (if c = 0x22 then Some (rev acc, cs)
      else if c = 0x5C then
        (case cs of
           [] \<Rightarrow> None
         | e # cs1 \<Rightarrow>
             if e = 0x75 then
               (case cs1 of
                  h1 # h2 # h3 # h4 # cs2 \<Rightarrow>
                    (case (hex_val h1, hex_val h2, hex_val h3, hex_val h4) of
                       (Some a, Some b, Some c', Some d) \<Rightarrow>
                         lex_string cs2 ((((a * 16 + b) * 16 + c') * 16 + d) # acc)
                     | _ \<Rightarrow> None)
                | _ \<Rightarrow> None)
             else
               (case escape_unit e of
                  None \<Rightarrow> None
                | Some u \<Rightarrow> lex_string cs1 (u # acc)))
      else if c < 0x20 then None
      else lex_string cs (c # acc))"

definition digits_val :: "nat list \<Rightarrow> nat" where
  "digits_val ds = foldl (\<lambda>n d. n * 10 + (d - 0x30)) 0 ds"

definition pow10 :: "int \<Rightarrow> rat" where
  "pow10 e = (if 0 \<le> e then 10 ^ nat e else 1 / 10 ^ nat (- e))"

text \<open>
  A number literal at the head of the text:
  \<^verbatim>\<open>-? (0 | [1-9][0-9]*) (\.[0-9]+)? ([eE][+-]?[0-9]+)?\<close>, in its three parts. Each
  part gives what it read and the text after it; the fraction and the exponent may be
  absent.
\<close>

definition lex_int :: "jsstring \<Rightarrow> (nat list \<times> jsstring) option" where
  "lex_int cs =
     (let ip = takeWhile is_digit cs
      in if ip = [] \<or> (1 < length ip \<and> hd ip = 0x30) then None
         else Some (ip, dropWhile is_digit cs))"

definition lex_frac :: "jsstring \<Rightarrow> (nat list \<times> jsstring) option" where
  "lex_frac cs =
     (if cs \<noteq> [] \<and> hd cs = 0x2E then
        (let fp = takeWhile is_digit (tl cs)
         in if fp = [] then None else Some (fp, dropWhile is_digit (tl cs)))
      else Some ([], cs))"

definition lex_exp :: "jsstring \<Rightarrow> (int \<times> jsstring) option" where
  "lex_exp cs =
     (if cs \<noteq> [] \<and> (hd cs = 0x65 \<or> hd cs = 0x45) then
        (let r = tl cs;
             exp_neg = (r \<noteq> [] \<and> hd r = 0x2D);
             r' = (if r \<noteq> [] \<and> (hd r = 0x2D \<or> hd r = 0x2B) then tl r else r);
             ep = takeWhile is_digit r'
         in if ep = [] then None
            else Some (if exp_neg then - int (digits_val ep) else int (digits_val ep),
                       dropWhile is_digit r'))
      else Some (0, cs))"

definition lex_number :: "jsstring \<Rightarrow> (rat \<times> jsstring) option" where
  "lex_number cs =
     (let neg = (cs \<noteq> [] \<and> hd cs = 0x2D)
      in case lex_int (if neg then tl cs else cs) of
           None \<Rightarrow> None
         | Some (ip, r1) \<Rightarrow>
             (case lex_frac r1 of
                None \<Rightarrow> None
              | Some (fp, r2) \<Rightarrow>
                  (case lex_exp r2 of
                     None \<Rightarrow> None
                   | Some (e, r3) \<Rightarrow>
                       (let m = of_nat (digits_val (ip @ fp)) * pow10 (e - int (length fp))
                        in Some (if neg then - m else m, r3)))))"

text \<open>The token at the head of a text that does not start with white space, and the rest.\<close>

definition scan_token :: "jsstring \<Rightarrow> (token \<times> jsstring) option" where
  "scan_token cs =
     (case cs of
        [] \<Rightarrow> None
      | c # cs' \<Rightarrow>
          if c = 0x7B then Some (TLBrace, cs')
          else if c = 0x7D then Some (TRBrace, cs')
          else if c = 0x5B then Some (TLBracket, cs')
          else if c = 0x5D then Some (TRBracket, cs')
          else if c = 0x3A then Some (TColon, cs')
          else if c = 0x2C then Some (TComma, cs')
          else if c = 0x22 then
            (case lex_string cs' [] of None \<Rightarrow> None | Some (s, rest) \<Rightarrow> Some (TString s, rest))
          else if c = 0x2D \<or> is_digit c then
            (case lex_number cs of None \<Rightarrow> None | Some (n, rest) \<Rightarrow> Some (TNumber n, rest))
          else if take 4 cs = js ''true'' then Some (TTrue, drop 4 cs)
          else if take 5 cs = js ''false'' then Some (TFalse, drop 5 cs)
          else if take 4 cs = js ''null'' then Some (TNull, drop 4 cs)
          else None)"

text \<open>The tokens of a JSON text; \<open>None\<close> when some character starts no token.\<close>

function lex :: "jsstring \<Rightarrow> token list option" where
  "lex [] = Some []"
| "lex (c # cs) =
     (if is_ws c then lex cs
      else (case scan_token (c # cs) of
              None \<Rightarrow> None
            | Some (t, rest) \<Rightarrow> map_option (Cons t) (lex rest)))"
  by pat_completeness auto
termination
proof (relation "measure length")
  have lex_string_shorter:
    "lex_string cs acc = Some (s, rest) \<Longrightarrow> length rest < length cs" for cs acc s rest
  proof (induction cs acc rule: lex_string.induct)
    case (1 acc)
    then show ?case by simp
  next
    case (2 c cs acc)
    show ?case
    proof (cases "c = 0x22")
      case True
      with "2.prems" show ?thesis by simp
    next
      case q: False
      show ?thesis
      proof (cases "c = 0x5C")
        case False
        with q "2.prems" have "lex_string cs (c # acc) = Some (s, rest)" and "\<not> c < 0x20"
          by (auto split: if_splits)
        with "2.IH"(3) [OF q False] show ?thesis by simp
      next
        case bs: True
        show ?thesis
        proof (cases cs)
          case Nil
          with q bs "2.prems" show ?thesis by simp
        next
          case (Cons e cs1)
          show ?thesis
          proof (cases "e = 0x75")
            case False
            with q bs Cons "2.prems" obtain u where
              u: "escape_unit e = Some u" and r: "lex_string cs1 (u # acc) = Some (s, rest)"
              by (auto split: option.splits)
            from "2.IH"(2) [OF q bs Cons False u] r have "length rest < length cs1" by simp
            with Cons show ?thesis by simp
          next
            case True
            with q bs Cons "2.prems" obtain h1 h2 h3 h4 cs2 a b c' d where
              cs1: "cs1 = h1 # h2 # h3 # h4 # cs2" and
              hv: "hex_val h1 = Some a" "hex_val h2 = Some b" "hex_val h3 = Some c'" "hex_val h4 = Some d" and
              r: "lex_string cs2 ((((a * 16 + b) * 16 + c') * 16 + d) # acc) = Some (s, rest)"
              by (auto split: list.splits option.splits)
            have "length rest < length cs2"
              by (rule "2.IH"(1) [OF q bs Cons True]) (use cs1 hv r in auto)
            with Cons cs1 show ?thesis by simp
          qed
        qed
      qed
    qed
  qed
  have lex_int_shorter: "lex_int cs = Some (ip, rest) \<Longrightarrow> length rest < length cs"
    for cs ip rest
    by (cases cs)
       (auto simp: lex_int_def Let_def le_imp_less_Suc length_dropWhile_le split: if_splits)
  have lex_frac_shorter: "lex_frac cs = Some (fp, rest) \<Longrightarrow> length rest \<le> length cs"
    for cs fp rest
  proof -
    assume a: "lex_frac cs = Some (fp, rest)"
    have "length (dropWhile is_digit (tl cs)) \<le> length cs"
      using length_dropWhile_le [of is_digit "tl cs"] by simp
    with a show ?thesis
      by (auto simp: lex_frac_def Let_def split: if_splits)
  qed
  have lex_exp_shorter: "lex_exp cs = Some (e, rest) \<Longrightarrow> length rest \<le> length cs"
    for cs e rest
  proof -
    assume a: "lex_exp cs = Some (e, rest)"
    have "length (dropWhile is_digit (tl cs)) \<le> length cs"
      using length_dropWhile_le [of is_digit "tl cs"] by simp
    moreover have "length (dropWhile is_digit (tl (tl cs))) \<le> length cs"
      using length_dropWhile_le [of is_digit "tl (tl cs)"] by simp
    ultimately show ?thesis
      using a unfolding lex_exp_def Let_def
      by (simp split: if_splits)
  qed
  have lex_number_shorter:
    "lex_number cs = Some (n, rest) \<Longrightarrow> length rest < length cs" for cs n rest
  proof -
    assume "lex_number cs = Some (n, rest)"
    then obtain ip r1 fp r2 e where
      i: "lex_int (if cs \<noteq> [] \<and> hd cs = 0x2D then tl cs else cs) = Some (ip, r1)" and
      f: "lex_frac r1 = Some (fp, r2)" and x: "lex_exp r2 = Some (e, rest)"
      unfolding lex_number_def Let_def
      by (auto split: option.splits)
    have "length (if cs \<noteq> [] \<and> hd cs = 0x2D then tl cs else cs) \<le> length cs" by simp
    with lex_int_shorter [OF i] lex_frac_shorter [OF f] lex_exp_shorter [OF x]
    show ?thesis by linarith
  qed
  have scan_token_shorter: "length rest < length cs" if "scan_token cs = Some (t, rest)"
    for cs t rest
  proof (cases cs)
    case Nil
    with that show ?thesis by (simp add: scan_token_def)
  next
    case (Cons c cs')
    have str: "lex_string cs' [] = Some (s, rest) \<Longrightarrow> length rest < Suc (length cs')" for s
      using lex_string_shorter [of cs' "[]" s rest] by simp
    have num: "lex_number (c # cs') = Some (n, rest) \<Longrightarrow> length rest < Suc (length cs')" for n
      using lex_number_shorter [of "c # cs'" n rest] by simp
    from that Cons show ?thesis
      by (auto simp: scan_token_def less_Suc_eq_le split: if_splits option.splits
          dest!: str num)
  qed
  fix c cs x2 t rest
  assume "scan_token (c # cs) = Some x2" "(t, rest) = x2"
  then have "scan_token (c # cs) = Some (t, rest)" by simp
  from scan_token_shorter [OF this] show "(rest, c # cs) \<in> measure length" by simp
qed auto

text \<open>
  The parser reads the tokens one at a time with a stack of the arrays and objects still
  open. An array frame holds its elements so far (reversed); an object frame its members
  so far and the key whose value is awaited. A repeated key keeps its place and takes the
  later value.
\<close>

datatype frame = FArr "json list" | FObj "(jsstring \<times> json) list" "jsstring option"

datatype phase = PValue | PFirst | PKeyFirst | PKey | PColon | PAfter | PDone json

definition put_member :: "jsstring \<Rightarrow> json \<Rightarrow> (jsstring \<times> json) list \<Rightarrow> (jsstring \<times> json) list" where
  "put_member k v ms =
     (if k \<in> fst ` set ms then map (\<lambda>(k', v'). if k' = k then (k', v) else (k', v')) ms
      else ms @ [(k, v)])"

definition deliver :: "json \<Rightarrow> frame list \<Rightarrow> (phase \<times> frame list) option" where
  "deliver v st =
     (case st of
        [] \<Rightarrow> Some (PDone v, [])
      | FArr xs # st' \<Rightarrow> Some (PAfter, FArr (v # xs) # st')
      | FObj ms (Some k) # st' \<Rightarrow> Some (PAfter, FObj (put_member k v ms) None # st')
      | FObj ms None # st' \<Rightarrow> None)"

definition close_array :: "frame list \<Rightarrow> (phase \<times> frame list) option" where
  "close_array st = (case st of FArr xs # st' \<Rightarrow> deliver (JArray (rev xs)) st' | _ \<Rightarrow> None)"

definition close_object :: "frame list \<Rightarrow> (phase \<times> frame list) option" where
  "close_object st = (case st of FObj ms None # st' \<Rightarrow> deliver (JObject ms) st' | _ \<Rightarrow> None)"

definition set_key :: "jsstring \<Rightarrow> frame list \<Rightarrow> (phase \<times> frame list) option" where
  "set_key k st = (case st of FObj ms None # st' \<Rightarrow> Some (PColon, FObj ms (Some k) # st') | _ \<Rightarrow> None)"

definition start_value :: "token \<Rightarrow> frame list \<Rightarrow> (phase \<times> frame list) option" where
  "start_value t st =
     (case t of
        TString s \<Rightarrow> deliver (JString s) st
      | TNumber n \<Rightarrow> deliver (JNumber n) st
      | TTrue \<Rightarrow> deliver (JBool True) st
      | TFalse \<Rightarrow> deliver (JBool False) st
      | TNull \<Rightarrow> deliver JNull st
      | TLBracket \<Rightarrow> Some (PFirst, FArr [] # st)
      | TLBrace \<Rightarrow> Some (PKeyFirst, FObj [] None # st)
      | _ \<Rightarrow> None)"

definition step :: "phase \<Rightarrow> frame list \<Rightarrow> token \<Rightarrow> (phase \<times> frame list) option" where
  "step ph st t =
     (case ph of
        PValue \<Rightarrow> start_value t st
      | PFirst \<Rightarrow> (if t = TRBracket then close_array st else start_value t st)
      | PKeyFirst \<Rightarrow>
          (case t of TString k \<Rightarrow> set_key k st | TRBrace \<Rightarrow> close_object st | _ \<Rightarrow> None)
      | PKey \<Rightarrow> (case t of TString k \<Rightarrow> set_key k st | _ \<Rightarrow> None)
      | PColon \<Rightarrow> (if t = TColon then Some (PValue, st) else None)
      | PAfter \<Rightarrow>
          (case t of
             TComma \<Rightarrow>
               (case st of
                  FArr xs # st' \<Rightarrow> Some (PValue, st)
                | FObj ms k # st' \<Rightarrow> Some (PKey, st)
                | [] \<Rightarrow> None)
           | TRBracket \<Rightarrow> close_array st
           | TRBrace \<Rightarrow> close_object st
           | _ \<Rightarrow> None)
      | PDone v \<Rightarrow> None)"

fun parse_tokens :: "phase \<Rightarrow> frame list \<Rightarrow> token list \<Rightarrow> json option" where
  "parse_tokens ph st [] = (case ph of PDone v \<Rightarrow> Some v | _ \<Rightarrow> None)"
| "parse_tokens ph st (t # ts) =
     (case step ph st t of None \<Rightarrow> None | Some (ph', st') \<Rightarrow> parse_tokens ph' st' ts)"

text \<open>\<^verbatim>\<open>JSON.parse(text)\<close>: the value, or a thrown \<^verbatim>\<open>SyntaxError\<close>.\<close>

definition JSON_parse :: "jsstring \<Rightarrow> js_exn + json" where
  "JSON_parse text =
     (case lex text of
        None \<Rightarrow> Inl JsSyntaxError
      | Some ts \<Rightarrow>
          (case parse_tokens PValue [] ts of None \<Rightarrow> Inl JsSyntaxError | Some v \<Rightarrow> Inr v))"

section \<open>The completion client\<close>

subsection \<open>Configuration\<close>

text \<open>
  The module reads four variables of the process environment once, when it is loaded.
  \<^verbatim>\<open>x || d\<close> on a string that may be absent takes \<open>d\<close> when \<open>x\<close> is absent or empty.
\<close>

record env =
  OPENAI_API_KEY :: "jsstring option"
  OPENAI_MODEL :: "jsstring option"
  SITE_URL :: "jsstring option"
  SITE_TITLE :: "jsstring option"

record config =
  apiKey :: "jsstring option"
  model :: jsstring
  siteUrl :: jsstring
  siteTitle :: jsstring

definition or_else :: "jsstring option \<Rightarrow> jsstring \<Rightarrow> jsstring" where
  "or_else x d = (case x of None \<Rightarrow> d | Some s \<Rightarrow> if s = [] then d else s)"

definition load_config :: "env \<Rightarrow> config" where
  "load_config e =
     \<lparr>apiKey = OPENAI_API_KEY e,
      model = or_else (OPENAI_MODEL e) (js ''openai/gpt-4o''),
      siteUrl = or_else (SITE_URL e) (js ''''),
      siteTitle = or_else (SITE_TITLE e) (js '''')\<rparr>"

text \<open>\<^verbatim>\<open>!apiKey\<close>: the key is absent or the empty string.\<close>

definition key_unset :: "config \<Rightarrow> bool" where
  "key_unset cfg = (case apiKey cfg of None \<Rightarrow> True | Some k \<Rightarrow> k = [])"

subsection \<open>The request\<close>

text \<open>
  \<^verbatim>\<open>JSON.stringify\<close> of a string: the quoted string, with the escapes of the
  language standard (\<^verbatim>\<open>QuoteJSONString\<close>): the short escapes, \<^verbatim>\<open>\u\<close> with four lower-case
  hexadecimal digits for the other control characters and for a surrogate without its partner,
  anything else as it is.
\<close>

definition hex_digit :: "nat \<Rightarrow> nat" where
  "hex_digit d = (if d < 10 then 0x30 + d else 0x61 + (d - 10))"

definition unicode_escape :: "nat \<Rightarrow> jsstring" where
  "unicode_escape c =
     [0x5C, 0x75, hex_digit (c div 4096 mod 16), hex_digit (c div 256 mod 16),
      hex_digit (c div 16 mod 16), hex_digit (c mod 16)]"

definition is_lead :: "nat \<Rightarrow> bool" where
  "is_lead c = (0xD800 \<le> c \<and> c \<le> 0xDBFF)"

definition is_trail :: "nat \<Rightarrow> bool" where
  "is_trail c = (0xDC00 \<le> c \<and> c \<le> 0xDFFF)"

definition quote_unit :: "nat \<Rightarrow> jsstring" where
  "quote_unit c =
     (if c = 0x08 then [0x5C, 0x62]
      else if c = 0x09 then [0x5C, 0x74]
      else if c = 0x0A then [0x5C, 0x6E]
      else if c = 0x0C then [0x5C, 0x66]
      else if c = 0x0D then [0x5C, 0x72]
      else if c = 0x22 then [0x5C, 0x22]
      else if c = 0x5C then [0x5C, 0x5C]
      else if c < 0x20 \<or> is_lead c \<or> is_trail c then unicode_escape c
      else [c])"

fun quote_units :: "jsstring \<Rightarrow> jsstring" where
  "quote_units [] = []"
| "quote_units [c] = quote_unit c"
| "quote_units (c # d # cs) =
     (if is_lead c \<and> is_trail d then c # d # quote_units cs
      else quote_unit c @ quote_units (d # cs))"

definition JSON_quote :: "jsstring \<Rightarrow> jsstring" where
  "JSON_quote s = 0x22 # quote_units s @ [0x22]"

text \<open>
  \<^verbatim>\<open>JSON.stringify({ model, messages: [{ role: 'user', content: prompt }] })\<close>: the members
  in the order of the object literal, without white space.
\<close>

definition request_body :: "jsstring \<Rightarrow> jsstring \<Rightarrow> jsstring" where
  \<open>request_body mdl prompt =
     js ''{"model":'' @ JSON_quote mdl @
     js '',"messages":[{"role":"user","content":'' @ JSON_quote prompt @ js ''}]}''\<close>

record request =
  url :: jsstring
  http_method :: jsstring
  headers :: "(jsstring \<times> jsstring) list"
  body :: jsstring

text \<open>
  The template literal \<^verbatim>\<open>`Bearer ${apiKey}`\<close> prints an absent key as \<^verbatim>\<open>undefined\<close>.
\<close>

definition bearer :: "jsstring option \<Rightarrow> jsstring" where
  "bearer k = js ''Bearer '' @ (case k of None \<Rightarrow> js ''undefined'' | Some s \<Rightarrow> s)"

definition build_request :: "config \<Rightarrow> jsstring \<Rightarrow> request" where
  "build_request cfg prompt =
     \<lparr>url = js ''https://openrouter.ai/api/v1/chat/completions'',
      http_method = js ''POST'',
      headers =
        [(js ''Authorization'', bearer (apiKey cfg)),
         (js ''HTTP-Referer'', siteUrl cfg),
         (js ''X-Title'', siteTitle cfg),
         (js ''Content-Type'', js ''application/json'')],
      body = request_body (model cfg) prompt\<rparr>"

subsection \<open>The provider\<close>

text \<open>
  The provider is outside the program. A success envelope is the object the provider's
  chat-completions interface returns: \<^verbatim>\<open>choices\<close>, each choice's \<^verbatim>\<open>message\<close> and the
  message's \<^verbatim>\<open>content\<close> may each be absent or \<^verbatim>\<open>null\<close> (\<open>None\<close>), and a content that
  is present is a string. \<open>json_body\<close> is what \<^verbatim>\<open>res.json()\<close> settles to.
  \<^verbatim>\<open>fetch\<close> transforms the provider's state and either rejects (a network failure) or
  resolves to a response.
\<close>

record message =
  content :: "jsstring option"

record choice =
  message :: "message option"

record envelope =
  choices :: "choice list option"

record response =
  status :: int
  json_body :: "js_exn + envelope"

text \<open>\<^verbatim>\<open>res.ok\<close>: the status is in the range 200 to 299.\<close>

definition ok :: "response \<Rightarrow> bool" where
  "ok res = (200 \<le> status res \<and> status res < 300)"

type_synonym 'p fetch = "request \<Rightarrow> 'p \<Rightarrow> (js_exn + response) \<times> 'p"

text \<open>The state the wrapped operation works on: the provider, and the requests sent so far.\<close>

record 'p http_world =
  provider :: 'p
  sent :: "request list"

text \<open>Decimal digits of an integer, as \<^verbatim>\<open>`${res.status}`\<close> prints it.\<close>

fun show_nat :: "nat \<Rightarrow> jsstring" where
  "show_nat n = (if n < 10 then [0x30 + n] else show_nat (n div 10) @ [0x30 + n mod 10])"

definition show_int :: "int \<Rightarrow> jsstring" where
  "show_int i = (if i < 0 then 0x2D # show_nat (nat (- i)) else show_nat (nat i))"

text \<open>
  The arrow function passed to the executor: one \<^verbatim>\<open>fetch\<close> of the request, an error
  carrying the status when the response is not ok, otherwise \<^verbatim>\<open>res.json()\<close>.
\<close>

definition api_call_of :: "config \<Rightarrow> 'p fetch \<Rightarrow> jsstring \<Rightarrow> ('p http_world, envelope) api_call" where
  "api_call_of cfg fetch prompt w =
     (let req = build_request cfg prompt;
          (r, p') = fetch req (provider w);
          w' = \<lparr>provider = p', sent = sent w @ [req]\<rparr>
      in case r of
           Inl e \<Rightarrow> (Inl e, w')
         | Inr res \<Rightarrow>
             if \<not> ok res then
               (Inl (JsError (js ''OpenRouter API error: '' @ show_int (status res))
                       (Num (status res))), w')
             else (json_body res, w'))"

subsection \<open>Reading the reply\<close>

text \<open>\<^verbatim>\<open>response.choices?.[0]?.message?.content || ''\<close>\<close>

definition first_content :: "envelope \<Rightarrow> jsstring" where
  "first_content response =
     (case choices response of
        None \<Rightarrow> []
      | Some [] \<Rightarrow> []
      | Some (c # cs) \<Rightarrow>
          (case message c of
             None \<Rightarrow> []
           | Some m \<Rightarrow> (case content m of None \<Rightarrow> [] | Some s \<Rightarrow> s)))"

text \<open>
  \<^verbatim>\<open>text.match(/```json\n([\s\S]*?)\n```/)\<close>, as a backtracking matcher does it.
  \<open>lazy_group\<close> is the lazy group followed by the closing fence at one position: it tries
  the closing fence first and takes one more code unit (\<^verbatim>\<open>[\s\S]\<close> is any code unit) only
  when that fails. \<open>match_at\<close> is the whole pattern at one position and \<open>regex_match\<close> tries
  the positions from left to right; the result is capture group 1, \<open>None\<close> for
  \<^verbatim>\<open>null\<close>.
\<close>

definition opening_fence :: jsstring where
  "opening_fence = js ''```json'' @ [0x0A]"

definition closing_fence :: jsstring where
  "closing_fence = 0x0A # js ''```''"

definition starts_with :: "jsstring \<Rightarrow> jsstring \<Rightarrow> bool" where
  "starts_with p cs = (take (length p) cs = p)"

fun lazy_group :: "jsstring \<Rightarrow> jsstring \<Rightarrow> jsstring option" where
  "lazy_group [] acc = (if starts_with closing_fence [] then Some (rev acc) else None)"
| "lazy_group (c # cs) acc =
     (if starts_with closing_fence (c # cs) then Some (rev acc) else lazy_group cs (c # acc))"

definition match_at :: "jsstring \<Rightarrow> jsstring option" where
  "match_at cs =
     (if starts_with opening_fence cs then lazy_group (drop (length opening_fence) cs) []
      else None)"

fun regex_match :: "jsstring \<Rightarrow> jsstring option" where
  "regex_match [] = match_at []"
| "regex_match (c # cs) =
     (case match_at (c # cs) of Some g \<Rightarrow> Some g | None \<Rightarrow> regex_match cs)"

text \<open>
  The \<^verbatim>\<open>if (expectJson)\<close> branch: the direct parse; in its \<^verbatim>\<open>catch\<close>, the parse of the
  fenced block when the pattern matches, else the dedicated error.
\<close>

definition parse_failure :: js_exn where
  "parse_failure = JsError (js ''Failed to parse JSON from OpenRouter response'') Missing"

definition parse_reply :: "jsstring \<Rightarrow> js_exn + json" where
  "parse_reply text =
     (case JSON_parse text of
        Inr v \<Rightarrow> Inr v
      | Inl e \<Rightarrow>
          (case regex_match text of
             Some g \<Rightarrow> JSON_parse g
           | None \<Rightarrow> Inl parse_failure))"

text \<open>
  \<^verbatim>\<open>async function callOpenRouterAPI(prompt, expectJson = false)\<close>. The result is a
  JavaScript value: the parsed JSON, or the content string (\<open>JString\<close>). The executor is
  called with its default budget.
\<close>

definition callOpenRouterAPI ::
  "config \<Rightarrow> 'p fetch \<Rightarrow> jsstring \<Rightarrow> bool option \<Rightarrow> 'p http_world
     \<Rightarrow> (js_exn + json) \<times> 'p http_world exec_state"
where
  "callOpenRouterAPI cfg fetch prompt expectJson_arg w =
     (let expectJson = (case expectJson_arg of None \<Rightarrow> False | Some b \<Rightarrow> b)
      in case retryWithExponentialBackoff (api_call_of cfg fetch prompt) None w of
           (Inl e, x) \<Rightarrow> (Inl e, x)
         | (Inr response, x) \<Rightarrow>
             if expectJson then (parse_reply (first_content response), x)
             else (Inr (JString (first_content response)), x))"

section \<open>The prompt builders\<close>

text \<open>
  The four exported generation functions. Their text arguments are strings; the template
  literals are those of the source, with \<^verbatim>\<open>${...}\<close> as concatenation.
\<close>

definition config_error :: js_exn where
  "config_error = JsError (js ''OpenAI API key not set.'') Missing"

definition note_prompt :: "jsstring \<Rightarrow> jsstring \<Rightarrow> jsstring \<Rightarrow> jsstring \<Rightarrow> jsstring" where
  \<open>note_prompt courseTitle sectionTitle summary courseContext =
     js (''You are an expert educational content creator. Given the following course ''
        @ ''and section, generate a high-quality, one-page comprehensive note for the ''
        @ ''section. The note should be clear, well-structured, and suitable for deep ''
        @ ''understanding and revision. Avoid repeating the summary points; instead, ''
        @ ''expand on them with rich, specific, and educational content. Use engaging ''
        @ ''language and examples where appropriate.\<newline>\<newline>Course Title: '')
     @ courseTitle
     @ js ''\<newline>Section Title: ''
     @ sectionTitle
     @ js ''\<newline>Section Summary (bullets):\<newline>''
     @ summary
     @ js ''\<newline>Course Context (topics, other sections):\<newline>''
     @ courseContext
     @ js (''\<newline>Return only the comprehensive note as a single string, no JSON ''
        @ ''or markdown formatting.'')\<close>

definition generateComprehensiveNote ::
  "config \<Rightarrow> 'p fetch \<Rightarrow> jsstring \<Rightarrow> jsstring \<Rightarrow> jsstring \<Rightarrow> jsstring \<Rightarrow> 'p http_world
     \<Rightarrow> (js_exn + json) \<times> 'p http_world exec_state"
where
  "generateComprehensiveNote cfg fetch courseTitle sectionTitle summary courseContext w =
     (if key_unset cfg then (Inl config_error, \<lparr>op_state = w, trace = []\<rparr>)
      else callOpenRouterAPI cfg fetch
             (note_prompt courseTitle sectionTitle summary courseContext) None w)"

definition course_prompt :: "jsstring \<Rightarrow> jsstring \<Rightarrow> jsstring \<Rightarrow> jsstring" where
  \<open>course_prompt title sourceType source =
     js (''You are an expert educational content creator. Create a comprehensive course ''
        @ ''structure based on the following:\<newline>\<newline>Title: '')
     @ title
     @ js ''\<newline>Source Type: ''
     @ sourceType
     @ js ''\<newline>Source: ''
     @ source
     @ js (''\<newline>\<newline>Generate a detailed course with:\<newline>1. A brief ''
        @ ''summary (2-3 sentences)\<newline>2. Category (e.g., Programming, Data Science, ''
        @ ''Business, Design, etc.)\<newline>3. Level (Beginner, Intermediate, or Advanced)\<newline>''
        @ ''4. 3-5 key topics covered\<newline>5. 5-8 lessons with:\<newline>   - Title\<newline>''
        @ ''   - Description (2-3 sentences)\<newline>   - Duration (e.g., "15 min", ''
        @ ''"30 min")\<newline>   - Detailed content (3-4 paragraphs)\<newline>6. 5-10 ''
        @ ''quiz questions with:\<newline>   - Question text\<newline>   - Type (multiple-choice, ''
        @ ''true-false, or fill-blank)\<newline>   - For multiple-choice questions: ''
        @ ''randomly vary the position of the correct answer (sometimes A, sometimes ''
        @ ''B, C, or D) to avoid predictable patterns\<newline>   - Options (for multiple-choice)\<newline>''
        @ ''   - Correct answer\<newline>   - Explanation\<newline>   - Difficulty (easy, ''
        @ ''medium, or hard)\<newline>7. 8-12 flashcards with:\<newline>   - Front (question ''
        @ ''or term)\<newline>   - Back (answer or definition)\<newline>   - Difficulty ''
        @ ''level\<newline>8. 3-5 comprehensive notes with:\<newline>   - Title\<newline>''
        @ ''   - Content (detailed explanation)\<newline>   - Related topics\<newline>''
        @ ''\<newline>Return the response as a valid JSON object.'')\<close>

definition generateCourseContent ::
  "config \<Rightarrow> 'p fetch \<Rightarrow> jsstring \<Rightarrow> jsstring \<Rightarrow> jsstring \<Rightarrow> 'p http_world
     \<Rightarrow> (js_exn + json) \<times> 'p http_world exec_state"
where
  "generateCourseContent cfg fetch title sourceType source w =
     (if key_unset cfg then (Inl config_error, \<lparr>op_state = w, trace = []\<rparr>)
      else callOpenRouterAPI cfg fetch (course_prompt title sourceType source) (Some True) w)"

text \<open>
  An element of \<^verbatim>\<open>coursesContext\<close>: its \<^verbatim>\<open>title\<close>, and its \<^verbatim>\<open>summary\<close> when it has
  one.
\<close>

record course =
  c_title :: jsstring
  c_summary :: "jsstring option"

text \<open>\<^verbatim>\<open>Array.prototype.join\<close> on strings.\<close>

fun join :: "jsstring \<Rightarrow> jsstring list \<Rightarrow> jsstring" where
  "join sep [] = []"
| "join sep [x] = x"
| "join sep (x # y # ys) = x @ sep @ join sep (y # ys)"

definition course_line :: "course \<Rightarrow> jsstring" where
  "course_line c = js ''- '' @ c_title c @ js '': '' @ or_else (c_summary c) (js ''No summary'')"

definition contextInfo :: "course list \<Rightarrow> jsstring" where
  "contextInfo coursesContext =
     (if 0 < length coursesContext
      then js ''The user is enrolled in these courses:\<newline>''
           @ join [0x0A] (map course_line coursesContext)
      else js ''The user has not enrolled in any courses yet.'')"

definition chat_prompt :: "jsstring \<Rightarrow> course list \<Rightarrow> jsstring" where
  \<open>chat_prompt msg coursesContext =
     js ''You are a concise AI tutor helping a student learn. ''
     @ contextInfo coursesContext
     @ js (''\<newline>\<newline>Student''
        @ [CHR 0x27]
        @ ''s question: '')
     @ msg
     @ js (''\<newline>\<newline>IMPORTANT: Provide a SHORT, DIRECT answer (2-4 sentences ''
        @ ''max).\<newline>- Answer the question directly and concisely\<newline>- No ''
        @ ''lengthy explanations or extra details unless specifically asked\<newline>''
        @ ''- If the question relates to their enrolled courses, mention it briefly\<newline>''
        @ ''- Be clear and to the point'')\<close>

definition generateChatResponse ::
  "config \<Rightarrow> 'p fetch \<Rightarrow> jsstring \<Rightarrow> course list \<Rightarrow> 'p http_world
     \<Rightarrow> (js_exn + json) \<times> 'p http_world exec_state"
where
  "generateChatResponse cfg fetch msg coursesContext w =
     (if key_unset cfg then (Inl config_error, \<lparr>op_state = w, trace = []\<rparr>)
      else callOpenRouterAPI cfg fetch (chat_prompt msg coursesContext) None w)"

text \<open>\<^verbatim>\<open>existingQuestions = 5\<close>: the count, 5 when the argument is omitted.\<close>

definition existingQuestions_of :: "int option \<Rightarrow> int" where
  "existingQuestions_of a = (case a of None \<Rightarrow> 5 | Some n \<Rightarrow> n)"

definition quiz_prompt :: "jsstring \<Rightarrow> jsstring \<Rightarrow> int option \<Rightarrow> jsstring" where
  \<open>quiz_prompt courseTitle courseTopic existingQuestions_arg =
     js ''You are an expert educational content creator. Generate ''
     @ show_int (existingQuestions_of existingQuestions_arg)
     @ js ('' new and unique multiple-choice quiz questions for the following course ''
        @ ''topic. These questions should be different from the existing ones and test ''
        @ ''deeper understanding.\<newline>\<newline>Course Title: '')
     @ courseTitle
     @ js ''\<newline>Course Topic: ''
     @ courseTopic
     @ js (''\<newline>\<newline>For each question:\<newline>- Provide 4 distinct options ''
        @ ''(A, B, C, D).\<newline>- IMPORTANT: Randomly vary the position of the correct ''
        @ ''answer (sometimes A, sometimes B, C, or D) to avoid predictable patterns. ''
        @ ''Do NOT always put the correct answer in the same position.\<newline>- Specify ''
        @ ''the correct answer clearly.\<newline>- For each option, provide a detailed ''
        @ ''explanation of why it is correct or incorrect.\<newline>- Provide a specific ''
        @ ''explanation for why the correct answer is right, referencing the question ''
        @ ''and options.\<newline>- Vary the difficulty level (easy, medium, hard).\<newline>''
        @ ''\<newline>Return the response as a valid JSON object.'')\<close>

definition generateAdditionalQuizQuestions ::
  "config \<Rightarrow> 'p fetch \<Rightarrow> jsstring \<Rightarrow> jsstring \<Rightarrow> int option \<Rightarrow> 'p http_world
     \<Rightarrow> (js_exn + json) \<times> 'p http_world exec_state"
where
  "generateAdditionalQuizQuestions cfg fetch courseTitle courseTopic existingQuestions_arg w =
     (if key_unset cfg then (Inl config_error, \<lparr>op_state = w, trace = []\<rparr>)
      else callOpenRouterAPI cfg fetch
             (quiz_prompt courseTitle courseTopic existingQuestions_arg) (Some True) w)"

text \<open>
  A mocked provider for concrete runs: its state is the list of responses still to be
  given, one per request; with none left, the connection fails.
\<close>

definition mock_fetch :: "((js_exn + response) list) fetch" where
  "mock_fetch req rs =
     (case rs of [] \<Rightarrow> (Inl (JsError (js ''network error'') Missing), [])
      | r # rest \<Rightarrow> (r, rest))"

definition reply_with :: "int \<Rightarrow> jsstring \<Rightarrow> js_exn + response" where
  "reply_with st text =
     Inr \<lparr>status = st,
          json_body = Inr \<lparr>choices = Some [\<lparr>message = Some \<lparr>content = Some text\<rparr>\<rparr>]\<rparr>\<rparr>"

section \<open>Properties of the executor\<close>

lemma state_before_0 [simp]: "state_before apiCall s 0 = s"
  by (simp add: state_before_def)

lemma state_before_Suc: "state_before apiCall s (Suc k) = state_before apiCall (snd (apiCall s)) k"
  by (simp add: state_before_def funpow_swap1 [of "\<lambda>t. snd (apiCall t)"])

lemma outcome_of_0: "outcome_of apiCall s 0 = fst (apiCall s)"
  by (simp add: outcome_of_def)

lemma outcome_of_Suc: "outcome_of apiCall s (Suc k) = outcome_of apiCall (snd (apiCall s)) k"
  by (simp add: outcome_of_def state_before_Suc)

declare retry_loop.simps [simp del]

lemma retry_loop_stop:
  assumes "attempt \<le> maxRetries"
    and "\<not> fails_retryably (fst (apiCall (op_state w))) \<or> attempt = maxRetries"
  shows "retry_loop apiCall maxRetries attempt le w =
           (settle (fst (apiCall (op_state w))),
            \<lparr>op_state = snd (apiCall (op_state w)), trace = trace w @ [Invoke]\<rparr>)"
  using assms
  by (subst retry_loop.simps, cases "apiCall (op_state w)")
     (auto simp: settle_def fails_retryably_def Let_def split: sum.splits bool.splits)

lemma retry_loop_continue:
  assumes "attempt < maxRetries"
    and "fails_retryably (fst (apiCall (op_state w)))"
  shows "retry_loop apiCall maxRetries attempt le w =
           (case fst (apiCall (op_state w)) of Inl e \<Rightarrow>
            retry_loop apiCall maxRetries (attempt + 1) e
              \<lparr>op_state = snd (apiCall (op_state w)),
               trace = trace w @ [Invoke, Sleep (delayMs attempt)]\<rparr>)"
  using assms
  by (subst retry_loop.simps, cases "apiCall (op_state w)")
     (auto simp: fails_retryably_def Let_def split: sum.splits bool.splits)

lemma retry_loop_run:
  assumes "1 \<le> attempt" and "1 \<le> k" and "attempt + int k - 1 \<le> maxRetries"
    and "\<forall>j<k - 1. fails_retryably (outcome_of apiCall (op_state w) j)"
    and "\<not> fails_retryably (outcome_of apiCall (op_state w) (k - 1))
         \<or> attempt + int k - 1 = maxRetries"
  shows "retry_loop apiCall maxRetries attempt le w =
           (settle (outcome_of apiCall (op_state w) (k - 1)),
            \<lparr>op_state = state_before apiCall (op_state w) k,
             trace = trace w @ schedule (nat (attempt - 1)) k\<rparr>)"
  using assms
proof (induction k arbitrary: attempt le w)
  case 0
  then show ?case by simp
next
  case (Suc k)
  show ?case
  proof (cases k)
    case 0
    have "attempt \<le> maxRetries" using Suc.prems 0 by simp
    moreover have "\<not> fails_retryably (fst (apiCall (op_state w))) \<or> attempt = maxRetries"
      using Suc.prems(5) 0 by (simp add: outcome_of_0)
    ultimately show ?thesis
      using 0 by (simp add: retry_loop_stop outcome_of_0 state_before_Suc)
  next
    case (Suc k')
    let ?s = "op_state w"
    from Suc.prems Suc have lt: "attempt < maxRetries" by simp
    from Suc.prems(4) Suc have f0: "fails_retryably (fst (apiCall ?s))"
      by (auto simp: outcome_of_0 dest: spec [of _ 0])
    then obtain e where e: "fst (apiCall ?s) = Inl e"
      by (auto simp: fails_retryably_def split: sum.splits)
    let ?w' = "\<lparr>op_state = snd (apiCall ?s), trace = trace w @ [Invoke, Sleep (delayMs attempt)]\<rparr>"
    have step: "retry_loop apiCall maxRetries attempt le w =
                  retry_loop apiCall maxRetries (attempt + 1) e ?w'"
      using retry_loop_continue [where apiCall = apiCall and w = w and attempt = attempt
          and maxRetries = maxRetries and le = le] lt f0 e by simp
    have p4: "\<forall>j<k - 1. fails_retryably (outcome_of apiCall (op_state ?w') j)"
      using Suc.prems(4) Suc by (auto simp: outcome_of_Suc [symmetric])
    have p5: "\<not> fails_retryably (outcome_of apiCall (op_state ?w') (k - 1))
               \<or> (attempt + 1) + int k - 1 = maxRetries"
      using Suc.prems(5) Suc by (auto simp: outcome_of_Suc [symmetric])
    have ih: "retry_loop apiCall maxRetries (attempt + 1) e ?w' =
                (settle (outcome_of apiCall (op_state ?w') (k - 1)),
                 \<lparr>op_state = state_before apiCall (op_state ?w') k,
                  trace = trace ?w' @ schedule (nat (attempt + 1 - 1)) k\<rparr>)"
      using Suc.prems Suc by (intro Suc.IH p4 p5) auto
    have n: "nat (attempt + 1 - 1) = Suc (nat (attempt - 1))"
      using Suc.prems(1) by simp
    have d: "delayMs attempt = 2 ^ nat (attempt - 1) * 1000"
      by (simp add: delayMs_def)
    show ?thesis
      unfolding step ih n
      using Suc by (simp add: outcome_of_Suc state_before_Suc d)
  qed
qed

lemma retry_loop_trace_grows:
  "\<exists>rest. trace (snd (retry_loop apiCall maxRetries attempt le w)) = trace w @ rest"
proof (induction apiCall maxRetries attempt le w rule: retry_loop.induct)
  case (1 apiCall maxRetries attempt lastError w)
  show ?case
  proof (cases "attempt < maxRetries \<and> fails_retryably (fst (apiCall (op_state w)))")
    case True
    then obtain e s' where a: "apiCall (op_state w) = (Inl e, s')" and r: "isRetryable e = Inr True"
      by (cases "apiCall (op_state w)") (auto simp: fails_retryably_def split: sum.splits)
    from True have ne: "attempt \<noteq> maxRetries" and le: "attempt \<le> maxRetries" by auto
    from "1.IH" [OF le a [symmetric] refl refl refl r _ ne]
    obtain rest where
      "trace (snd (retry_loop apiCall maxRetries (attempt + 1) e
          \<lparr>op_state = s', trace = trace w @ [Invoke, Sleep (delayMs attempt)]\<rparr>)) =
       (trace w @ [Invoke, Sleep (delayMs attempt)]) @ rest"
      by auto
    then show ?thesis
      using True a retry_loop_continue [where apiCall = apiCall and w = w and attempt = attempt
          and maxRetries = maxRetries and le = lastError]
      by auto
  next
    case False
    show ?thesis
    proof (cases "attempt \<le> maxRetries")
      case True
      with False have "\<not> fails_retryably (fst (apiCall (op_state w))) \<or> attempt = maxRetries"
        by auto
      from retry_loop_stop [where apiCall = apiCall and w = w and attempt = attempt
          and maxRetries = maxRetries and le = lastError] True this
      show ?thesis by simp
    next
      case False
      then show ?thesis by (subst retry_loop.simps) simp
    qed
  qed
qed

lemma retry_loop_invokes_first:
  assumes "attempt \<le> maxRetries"
  shows "\<exists>rest. trace (snd (retry_loop apiCall maxRetries attempt le w)) = trace w @ Invoke # rest"
proof (cases "attempt < maxRetries \<and> fails_retryably (fst (apiCall (op_state w)))")
  case True
  then obtain e where e: "fst (apiCall (op_state w)) = Inl e"
    by (auto simp: fails_retryably_def split: sum.splits)
  let ?w' = "\<lparr>op_state = snd (apiCall (op_state w)),
              trace = trace w @ [Invoke, Sleep (delayMs attempt)]\<rparr>"
  have "retry_loop apiCall maxRetries attempt le w =
          retry_loop apiCall maxRetries (attempt + 1) e ?w'"
    using retry_loop_continue [where apiCall = apiCall and w = w and attempt = attempt
        and maxRetries = maxRetries and le = le] True e by simp
  moreover obtain rest where
    "trace (snd (retry_loop apiCall maxRetries (attempt + 1) e ?w')) = trace ?w' @ rest"
    using retry_loop_trace_grows by blast
  ultimately show ?thesis by simp
next
  case False
  with assms have "\<not> fails_retryably (fst (apiCall (op_state w))) \<or> attempt = maxRetries"
    by auto
  from retry_loop_stop [where apiCall = apiCall and w = w and attempt = attempt
      and maxRetries = maxRetries and le = le] assms this
  show ?thesis by simp
qed

lemma retry_loop_prefix:
  assumes "1 \<le> attempt" and "attempt + int k \<le> maxRetries"
    and "\<forall>j<k. fails_retryably (outcome_of apiCall (op_state w) j)"
  shows "\<exists>rest. trace (snd (retry_loop apiCall maxRetries attempt le w)) =
           trace w @ schedule (nat (attempt - 1)) (Suc k) @ rest"
  using assms
proof (induction k arbitrary: attempt le w)
  case 0
  then show ?case using retry_loop_invokes_first [where attempt = attempt and maxRetries = maxRetries
        and apiCall = apiCall and le = le and w = w] by simp
next
  case (Suc k)
  let ?s = "op_state w"
  from Suc.prems have lt: "attempt < maxRetries" by simp
  from Suc.prems(3) have f0: "fails_retryably (fst (apiCall ?s))"
    by (auto simp: outcome_of_0 dest: spec [of _ 0])
  then obtain e where e: "fst (apiCall ?s) = Inl e"
    by (auto simp: fails_retryably_def split: sum.splits)
  let ?w' = "\<lparr>op_state = snd (apiCall ?s), trace = trace w @ [Invoke, Sleep (delayMs attempt)]\<rparr>"
  have step: "retry_loop apiCall maxRetries attempt le w =
                retry_loop apiCall maxRetries (attempt + 1) e ?w'"
    using retry_loop_continue [where apiCall = apiCall and w = w and attempt = attempt
        and maxRetries = maxRetries and le = le] lt f0 e by simp
  have p3: "\<forall>j<k. fails_retryably (outcome_of apiCall (op_state ?w') j)"
    using Suc.prems(3) by (auto simp: outcome_of_Suc [symmetric])
  have "\<exists>rest. trace (snd (retry_loop apiCall maxRetries (attempt + 1) e ?w')) =
           trace ?w' @ schedule (nat (attempt + 1 - 1)) (Suc k) @ rest"
    using Suc.prems by (intro Suc.IH p3) auto
  moreover have "nat (attempt + 1 - 1) = Suc (nat (attempt - 1))"
    using Suc.prems(1) by simp
  ultimately show ?case
    unfolding step by (simp add: delayMs_def)
qed

lemma length_schedule: "length (schedule i (Suc k)) = 2 * k + 1"
  by (induction i "Suc k" arbitrary: k rule: schedule.induct) auto

lemma invocations_schedule: "invocations (schedule i k) = k"
  by (induction i k rule: schedule.induct) (auto simp: invocations_def)

lemma delays_schedule: "delays (schedule i k) = map (\<lambda>j. 2 ^ j * 1000) [i..<i + k - 1]"
proof (induction i k rule: schedule.induct)
  case (3 i k)
  then show ?case by (simp add: upt_conv_Cons)
qed auto

lemma schedule_nth_delay: "j < k \<Longrightarrow> schedule i (Suc k) ! (2 * j + 1) = Sleep (2 ^ (i + j) * 1000)"
proof (induction i "Suc k" arbitrary: j k rule: schedule.induct)
  case (3 i k)
  then show ?case by (cases j) auto
qed auto

text \<open>
  A promise may reject with \<^verbatim>\<open>undefined\<close> or \<^verbatim>\<open>null\<close>. Reading \<^verbatim>\<open>error.status\<close> then
  raises a \<^verbatim>\<open>TypeError\<close> inside the \<^verbatim>\<open>catch\<close> block, and that is what the caller gets.
\<close>

lemma nullish_rejection_raises_TypeError:
  assumes "1 \<le> maxRetries_of arg" and "fst (apiCall s) = Inl e" and "e = JsUndefined \<or> e = JsNull"
  shows "retryWithExponentialBackoff apiCall arg s =
           (Inl JsTypeError, \<lparr>op_state = snd (apiCall s), trace = [Invoke]\<rparr>)"
proof -
  from assms(3) have nr: "isRetryable e = Inl JsTypeError"
    by (auto simp: isRetryable_def)
  then have "\<not> fails_retryably (fst (apiCall (op_state \<lparr>op_state = s, trace = []\<rparr>)))"
    using assms(2) by (simp add: fails_retryably_def)
  then have "retry_loop apiCall (maxRetries_of arg) 1 JsUndefined \<lparr>op_state = s, trace = []\<rparr> =
      (settle (fst (apiCall s)), \<lparr>op_state = snd (apiCall s), trace = [Invoke]\<rparr>)"
    using retry_loop_stop [where apiCall = apiCall and w = "\<lparr>op_state = s, trace = []\<rparr>"
        and attempt = 1 and maxRetries = "maxRetries_of arg" and le = JsUndefined] assms(1)
    by simp
  then show ?thesis
    using assms(2) nr by (simp add: retryWithExponentialBackoff_def settle_def)
qed

section \<open>Properties of the completion client\<close>





lemma closing_fence_nonempty: "closing_fence = 0x0A # js ''```''"
  by (simp add: closing_fence_def)







lemma js_Cons_not_Nil: "js (c # s) \<noteq> []"
  by (simp add: js_def)


lemma first_attempt_ok:
  assumes "fetch (build_request cfg prompt) (provider w) = (Inr res, p')" and "ok res"
    and "json_body res = Inr response"
  shows "retryWithExponentialBackoff (api_call_of cfg fetch prompt) None w =
           (Inr response,
            \<lparr>op_state = \<lparr>provider = p', sent = sent w @ [build_request cfg prompt]\<rparr>,
             trace = [Invoke]\<rparr>)"
proof -
  have a: "api_call_of cfg fetch prompt w =
             (Inr response, \<lparr>provider = p', sent = sent w @ [build_request cfg prompt]\<rparr>)"
    using assms by (simp add: api_call_of_def)
  then have "\<not> fails_retryably (fst (api_call_of cfg fetch prompt (op_state \<lparr>op_state = w, trace = []\<rparr>)))"
    by (simp add: fails_retryably_def)
  then have "retry_loop (api_call_of cfg fetch prompt) 3 1 JsUndefined \<lparr>op_state = w, trace = []\<rparr> =
      (settle (fst (api_call_of cfg fetch prompt w)),
       \<lparr>op_state = snd (api_call_of cfg fetch prompt w), trace = [Invoke]\<rparr>)"
    using retry_loop_stop [where apiCall = "api_call_of cfg fetch prompt"
        and w = "\<lparr>op_state = w, trace = []\<rparr>"
        and attempt = 1 and maxRetries = 3 and le = JsUndefined]
    by simp
  with a show ?thesis
    by (simp add: retryWithExponentialBackoff_def maxRetries_of_def settle_def)
qed

lemmas json_eval =
  JSON_parse_def js_def is_ws_def is_digit_def scan_token_def lex_number_def lex_int_def
  lex_frac_def lex_exp_def digits_val_def pow10_def step_def start_value_def deliver_def
  set_key_def close_object_def close_array_def put_member_def Let_def


lemma parse_object_a1:
  \<open>JSON_parse (js ''{"a":1}'') = Inr (JObject [(js ''a'', JNumber 1)])\<close>
  by (simp add: json_eval)















section \<open>The claims\<close>

text \<open>
  Claim C1. An operation that fails on every invocation of the run with an error whose
  \<^verbatim>\<open>status\<close> is 429, 500 or 503 is invoked exactly \<open>maxRetries\<close> times, and the
  executor then throws the error of the last invocation, with the operation's state as
  that invocation left it. "The last invocation" exists when \<open>maxRetries\<close> is at least 1;
  the invocation count is stated for every \<open>maxRetries\<close> (none when it is not positive).
  \<open>arg\<close> is the second argument as passed: \<open>None\<close> (omitted, default 3) or \<open>Some n\<close>.
\<close>

theorem exhausted_retries_raise_last_error:
  assumes "\<forall>k<nat (maxRetries_of arg). \<exists>e st. outcome_of apiCall s k = Inl e \<and>
             read_status e = Inr (Num st) \<and> st \<in> {429, 500, 503}"
  shows "invocations (trace (snd (retryWithExponentialBackoff apiCall arg s))) = nat (maxRetries_of arg)
       \<and> (1 \<le> maxRetries_of arg \<longrightarrow>
            fst (retryWithExponentialBackoff apiCall arg s) = outcome_of apiCall s (nat (maxRetries_of arg) - 1)
          \<and> (\<exists>e. fst (retryWithExponentialBackoff apiCall arg s) = Inl e)
          \<and> op_state (snd (retryWithExponentialBackoff apiCall arg s)) = state_before apiCall s (nat (maxRetries_of arg)))"
proof (cases "1 \<le> maxRetries_of arg")
  case False
  then show ?thesis
    by (simp add: retryWithExponentialBackoff_def maxRetries_of_def retry_loop.simps invocations_def)
next
  case True
  define n where "n = nat (maxRetries_of arg)"
  have fr: "\<forall>j<n. fails_retryably (outcome_of apiCall s j)"
    using assms by (fastforce simp: n_def fails_retryably_def isRetryable_def)
  have run: "retry_loop apiCall (maxRetries_of arg) 1 JsUndefined \<lparr>op_state = s, trace = []\<rparr> =
          (settle (outcome_of apiCall s (n - 1)),
           \<lparr>op_state = state_before apiCall s n, trace = [] @ schedule (nat (1 - 1)) n\<rparr>)"
    using retry_loop_run [where attempt = 1 and k = n and maxRetries = "maxRetries_of arg"
        and w = "\<lparr>op_state = s, trace = []\<rparr>" and apiCall = apiCall and le = JsUndefined]
      True fr by (simp add: n_def)
  have "fails_retryably (outcome_of apiCall s (n - 1))"
    using fr True by (simp add: n_def)
  then obtain e where "outcome_of apiCall s (n - 1) = Inl e" "isRetryable e = Inr True"
    by (auto simp: fails_retryably_def split: sum.splits)
  then have "settle (outcome_of apiCall s (n - 1)) = outcome_of apiCall s (n - 1)"
    by (simp add: settle_def)
  with run \<open>outcome_of apiCall s (n - 1) = Inl e\<close> show ?thesis
    by (simp add: retryWithExponentialBackoff_def n_def [symmetric] invocations_schedule)
qed

theorem exhausted_retries_raise_last_error_witness:
  "invocations (trace (snd (retryWithExponentialBackoff scripted (Some 2)
       [Inl (JsError [] (Num 503)), Inl (JsError [] (Num 429)) :: js_exn + unit]))) = 2
   \<and> fst (retryWithExponentialBackoff scripted (Some 2)
       [Inl (JsError [] (Num 503)), Inl (JsError [] (Num 429)) :: js_exn + unit])
     = Inl (JsError [] (Num 429))"
  using exhausted_retries_raise_last_error [of "Some 2" scripted
      "[Inl (JsError [] (Num 503)), Inl (JsError [] (Num 429)) :: js_exn + unit]"]
  by (simp add: maxRetries_of_def outcome_of_def state_before_def scripted_def
      numeral_2_eq_2 less_Suc_eq)

text \<open>
  Claim C2, as amended. When the first invocation throws a value \<open>e\<close> whose
  \<^verbatim>\<open>status\<close> does not read as the number 429, 500 or 503 (the property is absent, a
  string or another number, or \<open>e\<close> has no properties at all), the executor fails at once:
  the operation is invoked exactly once, no delay is performed and there is no second
  invocation. The value thrown to the caller is \<open>e\<close> itself whenever \<open>e\<close> is a value
  other than \<^verbatim>\<open>undefined\<close> and \<^verbatim>\<open>null\<close>. The attempt budget is at least 1, so that
  there is a first invocation.
\<close>

theorem non_retryable_failure_raised_immediately:
  assumes "1 \<le> maxRetries_of arg" and "fst (apiCall s) = Inl e"
    and "read_status e \<notin> {Inr (Num 429), Inr (Num 500), Inr (Num 503)}"
  shows "trace (snd (retryWithExponentialBackoff apiCall arg s)) = [Invoke]
       \<and> op_state (snd (retryWithExponentialBackoff apiCall arg s)) = snd (apiCall s)
       \<and> invocations (trace (snd (retryWithExponentialBackoff apiCall arg s))) = 1
       \<and> delays (trace (snd (retryWithExponentialBackoff apiCall arg s))) = []
       \<and> (\<exists>e'. fst (retryWithExponentialBackoff apiCall arg s) = Inl e')
       \<and> (e \<noteq> JsUndefined \<and> e \<noteq> JsNull \<longrightarrow>
            retryWithExponentialBackoff apiCall arg s =
              (Inl e, \<lparr>op_state = snd (apiCall s), trace = [Invoke]\<rparr>))"
proof -
  have nr: "isRetryable e \<noteq> Inr True"
    using assms(3) by (auto simp: isRetryable_def split: sum.splits)
  then have "\<not> fails_retryably (fst (apiCall (op_state \<lparr>op_state = s, trace = []\<rparr>)))"
    using assms(2) by (simp add: fails_retryably_def)
  then have run: "retry_loop apiCall (maxRetries_of arg) 1 JsUndefined \<lparr>op_state = s, trace = []\<rparr> =
      (settle (fst (apiCall s)), \<lparr>op_state = snd (apiCall s), trace = [Invoke]\<rparr>)"
    using retry_loop_stop [where apiCall = apiCall and w = "\<lparr>op_state = s, trace = []\<rparr>"
        and attempt = 1 and maxRetries = "maxRetries_of arg" and le = JsUndefined] assms(1)
    by simp
  have thrown: "\<exists>e'. settle (fst (apiCall s)) = Inl e'"
    using assms(2) by (simp add: settle_def split: sum.splits)
  have same: "settle (fst (apiCall s)) = Inl e" if "e \<noteq> JsUndefined" "e \<noteq> JsNull"
    using that assms(2) by (cases e) (simp_all add: settle_def isRetryable_def)
  show ?thesis
    using run thrown same
    by (auto simp: retryWithExponentialBackoff_def invocations_def)
qed

theorem non_retryable_failure_raised_immediately_witness:
  "1 \<le> maxRetries_of None
   \<and> retryWithExponentialBackoff scripted None
        [Inl (JsError [] (Num 400)), Inr (7::nat)] =
      (Inl (JsError [] (Num 400)), \<lparr>op_state = [Inr 7], trace = [Invoke]\<rparr>)"
  using non_retryable_failure_raised_immediately [of None scripted
      "[Inl (JsError [] (Num 400)), Inr (7::nat)]" "JsError [] (Num 400)"]
  by (simp add: maxRetries_of_def scripted_def)

text \<open>
  Claim C2 as stated fails: a rejection with \<^verbatim>\<open>undefined\<close> is a first failure that
  carries no \<^verbatim>\<open>status\<close> field, and the caller does not get that failure back: reading
  \<^verbatim>\<open>error.status\<close> in the \<^verbatim>\<open>catch\<close> block raises a \<^verbatim>\<open>TypeError\<close>, which is what
  the executor throws.
\<close>

theorem nullish_rejection_counterexample:
  "fst (scripted [Inl JsUndefined, Inr (7::nat)]) = Inl JsUndefined
   \<and> read_status JsUndefined \<noteq> Inr (Num 429)
   \<and> read_status JsUndefined \<noteq> Inr (Num 500)
   \<and> read_status JsUndefined \<noteq> Inr (Num 503)
   \<and> fst (retryWithExponentialBackoff scripted None [Inl JsUndefined, Inr (7::nat)]) =
       Inl JsTypeError
   \<and> fst (retryWithExponentialBackoff scripted None [Inl JsUndefined, Inr (7::nat)]) \<noteq>
       Inl JsUndefined"
  by (simp add: retryWithExponentialBackoff_def maxRetries_of_def retry_loop.simps scripted_def
      isRetryable_def)

text \<open>
  Claim C3, as amended. The delay \<open>2^(k-1) * 1000\<close> ms follows attempt \<open>k\<close> only when
  another attempt remains (\<open>k < maxRetries\<close>): if attempts \<open>1..k\<close> fail retryably, the run
  starts with invocation, 1000, invocation, 2000, ..., \<open>2^(k-1) * 1000\<close>, invocation
  number \<open>k + 1\<close>. The final allowed attempt is followed by no delay: when every attempt
  fails retryably the trace is exactly \<open>schedule 0 maxRetries\<close>, whose delays are
  \<open>2^0 * 1000, ..., 2^(maxRetries - 2) * 1000\<close>; for the default budget of 3 these are
  1000 and 2000 only.
\<close>

theorem delay_between_attempts:
  fixes apiCall :: "('s, 'a) api_call"
  defines "run arg s \<equiv> retryWithExponentialBackoff apiCall arg s"
  shows "(1 \<le> k \<and> int k < maxRetries_of arg \<and> (\<forall>j<k. fails_retryably (outcome_of apiCall s j)) \<longrightarrow>
            take (2 * k + 1) (trace (snd (run arg s))) = schedule 0 (Suc k)
          \<and> trace (snd (run arg s)) ! (2 * k - 1) = Sleep (2 ^ (k - 1) * 1000))
       \<and> ((\<forall>j<nat (maxRetries_of arg). fails_retryably (outcome_of apiCall s j)) \<longrightarrow>
            trace (snd (run arg s)) = schedule 0 (nat (maxRetries_of arg))
          \<and> delays (trace (snd (run arg s))) =
              map (\<lambda>j. 2 ^ j * 1000) [0..<nat (maxRetries_of arg) - 1])
       \<and> ((\<forall>j<3. fails_retryably (outcome_of apiCall s j)) \<longrightarrow>
            delays (trace (snd (run None s))) = [1000, 2000])"
proof (intro conjI impI)
  assume a: "1 \<le> k \<and> int k < maxRetries_of arg \<and> (\<forall>j<k. fails_retryably (outcome_of apiCall s j))"
  then obtain rest where
    r: "trace (snd (run arg s)) = schedule 0 (Suc k) @ rest"
    using retry_loop_prefix [where attempt = 1 and k = k and maxRetries = "maxRetries_of arg"
        and w = "\<lparr>op_state = s, trace = []\<rparr>" and apiCall = apiCall and le = JsUndefined]
    by (auto simp: run_def retryWithExponentialBackoff_def)
  show "take (2 * k + 1) (trace (snd (run arg s))) = schedule 0 (Suc k)"
    unfolding r using length_schedule [of 0 k] by simp
  from a obtain j where j: "k = Suc j" by (cases k) auto
  have "2 * j + 1 < length (schedule 0 (Suc k))"
    using length_schedule [of 0 k] j by simp
  then have "(schedule 0 (Suc k) @ rest) ! (2 * j + 1) = schedule 0 (Suc k) ! (2 * j + 1)"
    by (simp only: nth_append if_True)
  also have "\<dots> = Sleep (2 ^ (0 + j) * 1000)"
    using j by (intro schedule_nth_delay) simp
  finally show "trace (snd (run arg s)) ! (2 * k - 1) = Sleep (2 ^ (k - 1) * 1000)"
    unfolding r using j by simp
next
  have all: "trace (snd (run a s)) = schedule 0 (nat (maxRetries_of a))"
    if "\<forall>j<nat (maxRetries_of a). fails_retryably (outcome_of apiCall s j)" for a
  proof (cases "1 \<le> maxRetries_of a")
    case True
    then show ?thesis
      using that retry_loop_run [where attempt = 1 and k = "nat (maxRetries_of a)"
          and maxRetries = "maxRetries_of a" and w = "\<lparr>op_state = s, trace = []\<rparr>"
          and apiCall = apiCall and le = JsUndefined]
      by (simp add: run_def retryWithExponentialBackoff_def)
  next
    case False
    then show ?thesis
      by (simp add: run_def retryWithExponentialBackoff_def retry_loop.simps)
  qed
  {
    assume "\<forall>j<nat (maxRetries_of arg). fails_retryably (outcome_of apiCall s j)"
    from all [OF this]
    show "trace (snd (run arg s)) = schedule 0 (nat (maxRetries_of arg))" .
    then show "delays (trace (snd (run arg s))) =
        map (\<lambda>j. 2 ^ j * 1000) [0..<nat (maxRetries_of arg) - 1]"
      by (simp add: delays_schedule)
  }
  assume "\<forall>j<3. fails_retryably (outcome_of apiCall s j)"
  then have "trace (snd (run None s)) = schedule 0 (nat (maxRetries_of None))"
    by (intro all) (simp add: maxRetries_of_def)
  then show "delays (trace (snd (run None s))) = [1000, 2000]"
    by (simp add: maxRetries_of_def numeral_3_eq_3)
qed

theorem delay_between_attempts_witness:
  "take 5 (trace (snd (retryWithExponentialBackoff scripted None
      [Inl (JsError [] (Num 503)), Inl (JsError [] (Num 500)),
       Inl (JsError [] (Num 429)) :: js_exn + unit])))
     = [Invoke, Sleep 1000, Invoke, Sleep 2000, Invoke]
   \<and> trace (snd (retryWithExponentialBackoff scripted None
      [Inl (JsError [] (Num 503)), Inl (JsError [] (Num 500)),
       Inl (JsError [] (Num 429)) :: js_exn + unit])) ! 3 = Sleep 2000
   \<and> delays (trace (snd (retryWithExponentialBackoff scripted None
      [Inl (JsError [] (Num 503)), Inl (JsError [] (Num 500)),
       Inl (JsError [] (Num 429)) :: js_exn + unit]))) = [1000, 2000]"
  using delay_between_attempts [where k = 2 and arg = None and apiCall = scripted
      and s = "[Inl (JsError [] (Num 503)), Inl (JsError [] (Num 500)),
                Inl (JsError [] (Num 429)) :: js_exn + unit]"]
  by (simp add: maxRetries_of_def fails_retryably_def isRetryable_def outcome_of_def
      state_before_def scripted_def numeral_2_eq_2 numeral_3_eq_3 less_Suc_eq)

text \<open>
  Claim C3 as stated fails: with the default budget and three failures with status 503,
  the third attempt is not followed by a delay of 4000 ms (\<^verbatim>\<open>if (attempt === maxRetries) break;\<close>
  comes before the delay).
\<close>

theorem delays_4000_counterexample:
  "fails_retryably (outcome_of scripted
      [Inl (JsError [] (Num 503)), Inl (JsError [] (Num 503)),
       Inl (JsError [] (Num 503)) :: js_exn + unit] 0)
   \<and> fails_retryably (outcome_of scripted
      [Inl (JsError [] (Num 503)), Inl (JsError [] (Num 503)),
       Inl (JsError [] (Num 503)) :: js_exn + unit] 1)
   \<and> fails_retryably (outcome_of scripted
      [Inl (JsError [] (Num 503)), Inl (JsError [] (Num 503)),
       Inl (JsError [] (Num 503)) :: js_exn + unit] 2)
   \<and> delays (trace (snd (retryWithExponentialBackoff scripted None
      [Inl (JsError [] (Num 503)), Inl (JsError [] (Num 503)),
       Inl (JsError [] (Num 503)) :: js_exn + unit]))) = [1000, 2000]
   \<and> delays (trace (snd (retryWithExponentialBackoff scripted None
      [Inl (JsError [] (Num 503)), Inl (JsError [] (Num 503)),
       Inl (JsError [] (Num 503)) :: js_exn + unit]))) \<noteq> [1000, 2000, 4000]"
  by (simp add: retryWithExponentialBackoff_def maxRetries_of_def retry_loop.simps scripted_def
      isRetryable_def delayMs_def fails_retryably_def outcome_of_def state_before_def
      numeral_2_eq_2)

text \<open>
  Claim C4. When attempts \<open>1..k-1\<close> fail retryably and attempt \<open>k \<le> maxRetries\<close> returns
  \<open>r\<close>, the executor returns \<open>r\<close>; the operation has been invoked exactly \<open>k\<close> times (its
  state is the one after \<open>k\<close> invocations, and the trace \<open>schedule 0 k\<close> holds \<open>k\<close>
  invocations and ends with the last of them). Scenario: \<^verbatim>\<open>generateCourseContent\<close> with a
  provider that answers 503, 503, then 200 with a content that is valid JSON returns the
  parsed value on the third attempt, after waiting 1000 ms and then 2000 ms, having sent
  the same request three times.
\<close>

theorem success_on_attempt_k:
  "(1 \<le> k \<and> int k \<le> maxRetries_of arg
      \<and> (\<forall>j<k - 1. fails_retryably (outcome_of apiCall s j))
      \<and> outcome_of apiCall s (k - 1) = Inr r \<longrightarrow>
        retryWithExponentialBackoff apiCall arg s =
          (Inr r, \<lparr>op_state = state_before apiCall s k, trace = schedule 0 k\<rparr>)
      \<and> invocations (schedule 0 k) = k)
   \<and> (\<not> key_unset cfg \<and> JSON_parse reply = Inr v \<longrightarrow>
        generateCourseContent cfg mock_fetch title sourceType source
          \<lparr>provider = [reply_with 503 e1, reply_with 503 e2, reply_with 200 reply], sent = []\<rparr> =
        (Inr v,
         \<lparr>op_state = \<lparr>provider = [],
             sent = replicate 3 (build_request cfg (course_prompt title sourceType source))\<rparr>,
          trace = [Invoke, Sleep 1000, Invoke, Sleep 2000, Invoke]\<rparr>))"
proof (intro conjI impI)
  assume a: "1 \<le> k \<and> int k \<le> maxRetries_of arg
      \<and> (\<forall>j<k - 1. fails_retryably (outcome_of apiCall s j))
      \<and> outcome_of apiCall s (k - 1) = Inr r"
  then have "\<not> fails_retryably (outcome_of apiCall s (k - 1))"
    by (simp add: fails_retryably_def)
  with a show "retryWithExponentialBackoff apiCall arg s =
          (Inr r, \<lparr>op_state = state_before apiCall s k, trace = schedule 0 k\<rparr>)"
    using retry_loop_run [where attempt = 1 and k = k and maxRetries = "maxRetries_of arg"
        and w = "\<lparr>op_state = s, trace = []\<rparr>" and apiCall = apiCall and le = JsUndefined]
    by (simp add: retryWithExponentialBackoff_def settle_def)
  show "invocations (schedule 0 k) = k" by (rule invocations_schedule)
next
  assume "\<not> key_unset cfg \<and> JSON_parse reply = Inr v"
  then show "generateCourseContent cfg mock_fetch title sourceType source
          \<lparr>provider = [reply_with 503 e1, reply_with 503 e2, reply_with 200 reply], sent = []\<rparr> =
        (Inr v,
         \<lparr>op_state = \<lparr>provider = [],
             sent = replicate 3 (build_request cfg (course_prompt title sourceType source))\<rparr>,
          trace = [Invoke, Sleep 1000, Invoke, Sleep 2000, Invoke]\<rparr>)"
    by (simp add: generateCourseContent_def callOpenRouterAPI_def retryWithExponentialBackoff_def
        maxRetries_of_def retry_loop.simps api_call_of_def mock_fetch_def reply_with_def ok_def
        isRetryable_def delayMs_def parse_reply_def first_content_def numeral_3_eq_3)
qed

theorem success_on_attempt_k_witness:
  \<open>retryWithExponentialBackoff scripted (Some 5)
      [Inl (JsError [] (Num 429)), Inr (7::nat), Inr 8] =
     (Inr 7, \<lparr>op_state = [Inr 8], trace = [Invoke, Sleep 1000, Invoke]\<rparr>)
   \<and> generateCourseContent
        \<lparr>apiKey = Some (js ''k''), model = js ''openai/gpt-4o'', siteUrl = [], siteTitle = []\<rparr>
        mock_fetch (js ''T'') (js ''text'') (js ''S'')
        \<lparr>provider = [reply_with 503 [], reply_with 503 [], reply_with 200 (js ''{"a":1}'')], sent = []\<rparr> =
      (Inr (JObject [(js ''a'', JNumber 1)]),
       \<lparr>op_state = \<lparr>provider = [],
           sent = replicate 3 (build_request
             \<lparr>apiKey = Some (js ''k''), model = js ''openai/gpt-4o'', siteUrl = [], siteTitle = []\<rparr>
             (course_prompt (js ''T'') (js ''text'') (js ''S'')))\<rparr>,
        trace = [Invoke, Sleep 1000, Invoke, Sleep 2000, Invoke]\<rparr>)\<close>
  using success_on_attempt_k [where k = 2 and arg = "Some 5" and apiCall = scripted
      and s = "[Inl (JsError [] (Num 429)), Inr (7::nat), Inr 8]" and r = 7
      and cfg = "\<lparr>apiKey = Some (js ''k''), model = js ''openai/gpt-4o'', siteUrl = [], siteTitle = []\<rparr>"
      and reply = \<open>js ''{"a":1}''\<close> and v = "JObject [(js ''a'', JNumber 1)]"
      and title = "js ''T''" and sourceType = "js ''text''" and source = "js ''S''"
      and ?e1.0 = "[]" and ?e2.0 = "[]"]
    parse_object_a1
  by (simp add: maxRetries_of_def fails_retryably_def isRetryable_def outcome_of_def
      state_before_def scripted_def numeral_2_eq_2 key_unset_def js_Cons_not_Nil)



text \<open>
  Claim C6. Outside JSON mode (second argument omitted or \<^verbatim>\<open>false\<close>), whenever the
  executor returns a success envelope the client returns the content string of the first
  choice's message as it is, and the empty string when \<^verbatim>\<open>choices\<close> is absent or empty, or
  when the first choice has no message or the message no content. With a first response
  that is ok, this takes one request.
\<close>

theorem non_json_mode_returns_first_content:
  "(retryWithExponentialBackoff (api_call_of cfg fetch prompt) None w = (Inr response, x) \<longrightarrow>
      callOpenRouterAPI cfg fetch prompt None w = (Inr (JString (first_content response)), x)
    \<and> callOpenRouterAPI cfg fetch prompt (Some False) w = (Inr (JString (first_content response)), x))
   \<and> (fetch (build_request cfg prompt) (provider w) = (Inr res, p') \<and> ok res
        \<and> json_body res = Inr response \<longrightarrow>
      callOpenRouterAPI cfg fetch prompt None w =
        (Inr (JString (first_content response)),
         \<lparr>op_state = \<lparr>provider = p', sent = sent w @ [build_request cfg prompt]\<rparr>,
          trace = [Invoke]\<rparr>))
   \<and> (choices response = Some (c # cs) \<and> message c = Some m \<and> content m = Some s \<longrightarrow>
        first_content response = s)
   \<and> (choices response = None \<or> choices response = Some [] \<longrightarrow> first_content response = [])
   \<and> (choices response = Some (c # cs)
        \<and> (message c = None \<or> (message c = Some m \<and> content m = None)) \<longrightarrow>
        first_content response = [])"
proof (intro conjI impI)
  assume "fetch (build_request cfg prompt) (provider w) = (Inr res, p') \<and> ok res
        \<and> json_body res = Inr response"
  then show "callOpenRouterAPI cfg fetch prompt None w =
        (Inr (JString (first_content response)),
         \<lparr>op_state = \<lparr>provider = p', sent = sent w @ [build_request cfg prompt]\<rparr>,
          trace = [Invoke]\<rparr>)"
    using first_attempt_ok [of fetch cfg prompt w res p' response]
    by (simp add: callOpenRouterAPI_def)
qed (auto simp: callOpenRouterAPI_def first_content_def)

theorem non_json_mode_returns_first_content_witness:
  "generateChatResponse \<lparr>apiKey = Some (js ''k''), model = js ''openai/gpt-4o'', siteUrl = [], siteTitle = []\<rparr>
        mock_fetch (js ''What is recursion?'') []
        \<lparr>provider = [reply_with 200 (js ''hello'')], sent = []\<rparr> =
     (Inr (JString (js ''hello'')),
      \<lparr>op_state = \<lparr>provider = [],
          sent = [build_request \<lparr>apiKey = Some (js ''k''), model = js ''openai/gpt-4o'', siteUrl = [], siteTitle = []\<rparr>
                    (chat_prompt (js ''What is recursion?'') [])]\<rparr>,
       trace = [Invoke]\<rparr>)
   \<and> first_content \<lparr>choices = Some []\<rparr> = []
   \<and> first_content \<lparr>choices = None\<rparr> = []"
  using non_json_mode_returns_first_content [where fetch = mock_fetch
      and cfg = "\<lparr>apiKey = Some (js ''k''), model = js ''openai/gpt-4o'', siteUrl = [], siteTitle = []\<rparr>"
      and prompt = "chat_prompt (js ''What is recursion?'') []"
      and w = "\<lparr>provider = [reply_with 200 (js ''hello'')], sent = []\<rparr>"
      and res = "\<lparr>status = 200, json_body = Inr \<lparr>choices = Some [\<lparr>message = Some \<lparr>content = Some (js ''hello'')\<rparr>\<rparr>]\<rparr>\<rparr>"
      and p' = "[]"
      and response = "\<lparr>choices = Some [\<lparr>message = Some \<lparr>content = Some (js ''hello'')\<rparr>\<rparr>]\<rparr>"
      and c = "\<lparr>message = Some \<lparr>content = Some (js ''hello'')\<rparr>\<rparr>" and cs = "[]"
      and m = "\<lparr>content = Some (js ''hello'')\<rparr>" and s = "js ''hello''"]
    non_json_mode_returns_first_content [where response = "\<lparr>choices = Some []\<rparr>"]
    non_json_mode_returns_first_content [where response = "\<lparr>choices = None\<rparr>"]
  by (simp add: generateChatResponse_def key_unset_def mock_fetch_def reply_with_def ok_def
      first_content_def js_Cons_not_Nil)

text \<open>
  Claim C7. With the API key unset (absent, or the empty string) each of the four
  generation functions fails with the configuration error before anything else happens:
  the provider and the list of sent requests are untouched (no network request), and the
  executor's trace is empty (no invocation, no delay).
\<close>

theorem unset_key_fails_before_any_request:
  assumes "key_unset cfg"
  shows "generateComprehensiveNote cfg fetch courseTitle sectionTitle summary courseContext w =
           (Inl config_error, \<lparr>op_state = w, trace = []\<rparr>)
       \<and> generateCourseContent cfg fetch title sourceType source w =
           (Inl config_error, \<lparr>op_state = w, trace = []\<rparr>)
       \<and> generateChatResponse cfg fetch msg coursesContext w =
           (Inl config_error, \<lparr>op_state = w, trace = []\<rparr>)
       \<and> generateAdditionalQuizQuestions cfg fetch courseTitle courseTopic existingQuestions_arg w =
           (Inl config_error, \<lparr>op_state = w, trace = []\<rparr>)
       \<and> config_error = JsError (js ''OpenAI API key not set.'') Missing"
  using assms
  by (simp add: generateComprehensiveNote_def generateCourseContent_def generateChatResponse_def
      generateAdditionalQuizQuestions_def config_error_def)

theorem unset_key_fails_before_any_request_witness:
  "key_unset (load_config \<lparr>OPENAI_API_KEY = None, OPENAI_MODEL = None, SITE_URL = None, SITE_TITLE = None\<rparr>)
   \<and> generateChatResponse
        (load_config \<lparr>OPENAI_API_KEY = None, OPENAI_MODEL = None, SITE_URL = None, SITE_TITLE = None\<rparr>)
        mock_fetch (js ''What is recursion?'') []
        \<lparr>provider = [reply_with 200 (js ''Recursion is...'')], sent = []\<rparr> =
      (Inl (JsError (js ''OpenAI API key not set.'') Missing),
       \<lparr>op_state = \<lparr>provider = [reply_with 200 (js ''Recursion is...'')], sent = []\<rparr>, trace = []\<rparr>)"
  using unset_key_fails_before_any_request [of
      "load_config \<lparr>OPENAI_API_KEY = None, OPENAI_MODEL = None, SITE_URL = None, SITE_TITLE = None\<rparr>"
      mock_fetch undefined undefined undefined undefined
      "\<lparr>provider = [reply_with 200 (js ''Recursion is...'')], sent = []\<rparr>"
      undefined undefined undefined "js ''What is recursion?''" "[]"]
  by (simp add: key_unset_def load_config_def)





text \<open>
  Claim C10. With \<open>maxRetries \<le> 0\<close> the loop body never runs: the operation is not
  invoked (empty trace, state untouched) and the executor throws the uninitialised
  \<^verbatim>\<open>lastError\<close>, that is \<^verbatim>\<open>undefined\<close>, whatever the operation is.
\<close>

theorem nonpositive_budget_throws_undefined:
  assumes "maxRetries \<le> 0"
  shows "retryWithExponentialBackoff apiCall (Some maxRetries) s =
           (Inl JsUndefined, \<lparr>op_state = s, trace = []\<rparr>)"
  using assms
  by (simp add: retryWithExponentialBackoff_def maxRetries_of_def retry_loop.simps)

theorem nonpositive_budget_throws_undefined_witness:
  "retryWithExponentialBackoff scripted (Some 0) [Inr (7::nat)] =
     (Inl JsUndefined, \<lparr>op_state = [Inr 7], trace = []\<rparr>)"
  using nonpositive_budget_throws_undefined [of 0 scripted "[Inr (7::nat)]"] by simp

end
